theory Spec2Isabelle
  imports Main "HOL-Library.Word"
begin

unbundle bit_operations_syntax

section \<open>Data model of \<^verbatim>\<open>mc3ds/convert.py\<close>\<close>

text \<open>
  Python exceptions are values: a function that can raise returns \<open>error + 'a\<close>, with
  \<open>Inl\<close> the exception. \<open>LookupError\<close> stands for the failure of an index or key lookup
  on a container whose class the source file does not show (\<open>world.cdb\<close>).
\<close>

datatype error = ValueError | KeyError | IndexError | AttributeError | LookupError

text \<open>A position is the triple (chunk x, chunk z, dimension); the dimension constants
  are those of lines 18 to 20.\<close>

type_synonym position = "int \<times> int \<times> int"

definition OVERWORLD :: int where "OVERWORLD = 0"
definition NETHER :: int where "NETHER = 1"
definition END :: int where "END = 2"

text \<open>A block id is the pair (numeric id, data value), a key of the mapping table.\<close>

type_synonym block_id = "int \<times> int"

text \<open>\<open>anvil.Block(namespace, block_id, properties)\<close>, the destination descriptor, with
  its attributes \<open>namespace\<close>, \<open>id\<close> and \<open>properties\<close>.\<close>

record Block =
  b_namespace :: string
  b_id :: string
  b_properties :: "string \<rightharpoonup> string"

text \<open>A subchunk payload is a byte string: \<open>0x1000\<close> block-id bytes, then the packed
  data nibbles. \<open>Entry.blocks\<close> is the sequence of the subchunk payloads of one chunk.\<close>

type_synonym byte = "8 word"

record Entry =
  entry_blocks :: "byte list list"

text \<open>\<open>anvil.EmptyChunk(x, z)\<close> with the cells that \<open>set_block\<close> has set, keyed by
  \<open>(x, y, z)\<close>. A cell that is not set is air in the destination format. The chunk
  container belongs to the library: only the record of which cell holds which block
  is kept here, and the library's own check of the coordinate range is not part of it.\<close>

record EmptyChunk =
  chunk_x :: int
  chunk_z :: int
  cells :: "nat \<times> nat \<times> nat \<rightharpoonup> Block"

definition set_block :: "Block \<Rightarrow> nat \<Rightarrow> nat \<Rightarrow> nat \<Rightarrow> EmptyChunk \<Rightarrow> EmptyChunk" where
  "set_block block x y z c = c\<lparr>cells := (cells c)((x, y, z) \<mapsto> block)\<rparr>"

text \<open>What \<open>place_blocks\<close> leaves behind when it returns: the chunk, and the lines
  printed to stderr. A call that raises is the exception alone.\<close>

record placed =
  chunk :: EmptyChunk
  stderr :: "string list"

text \<open>The fields of a \<open>ChunkConverter\<close>, as \<open>__init__\<close> sets them (lines 31 to 34).
  \<open>self.entry\<close> is \<open>None\<close> for the placeholder of a corrupted chunk (line 195).\<close>

record ChunkConverter =
  self_region_x :: int
  self_region_z :: int
  self_dimension :: int
  self_entry :: "Entry option"
  self_blocks :: "block_id \<rightharpoonup> Block"
  self_corrupted :: bool

definition corrupted_block :: Block where
  "corrupted_block = \<lparr>b_namespace = ''minecraft'', b_id = ''glass'', b_properties = Map.empty\<rparr>"

definition netherite_block :: Block where
  "netherite_block =
     \<lparr>b_namespace = ''minecraft'', b_id = ''netherite_block'', b_properties = Map.empty\<rparr>"

section \<open>Decoding one cell (\<open>ChunkConverter.place_blocks\<close>, lines 50 to 60)\<close>

text \<open>Lines 50 and 52 to 54: the cell coordinate of index \<open>position\<close> in subchunk
  \<open>subchunk_y\<close>, as \<open>(x, y, z)\<close>.\<close>

definition cell_coords :: "nat \<Rightarrow> nat \<Rightarrow> nat \<times> nat \<times> nat" where
  "cell_coords subchunk_y position =
     (let y_offset = subchunk_y * 16;
          y = (position AND 0xF) + y_offset;
          z = drop_bit 4 (position AND 0xF0);
          x = drop_bit 8 position
      in (x, y, z))"

text \<open>Lines 56 to 60: the data nibble of cell \<open>position\<close>. Indexing the payload past
  its end raises \<open>IndexError\<close>.\<close>

definition read_block_data :: "byte list \<Rightarrow> nat \<Rightarrow> error + byte" where
  "read_block_data blocks position =
     (if 0x1000 + position div 2 < length blocks then
        (let block_byte = blocks ! (0x1000 + position div 2)
         in if position mod 2 = 0 then Inr (block_byte AND 0xF)
            else Inr (drop_bit 4 block_byte))
      else Inl IndexError)"

section \<open>The unknown-block diagnostic (lines 67 to 70)\<close>

text \<open>Python's \<open>str\<close> of an integer, and the \<open>repr\<close> of a tuple of integers, as the
  f-string of line 68 formats them.\<close>

definition digit_char :: "nat \<Rightarrow> char" where
  "digit_char d = ''0123456789'' ! d"

function str_nat :: "nat \<Rightarrow> string" where
  "str_nat n = (if n < 10 then [digit_char n] else str_nat (n div 10) @ [digit_char (n mod 10)])"
  by pat_completeness auto
termination
  by (relation "measure (\<lambda>n. n)") auto

declare str_nat.simps [simp del]

definition str_int :: "int \<Rightarrow> string" where
  "str_int i = (if i < 0 then CHR ''-'' # str_nat (nat (- i)) else str_nat (nat i))"

definition unknown_block_message :: "block_id \<Rightarrow> nat \<times> nat \<times> nat \<Rightarrow> int \<Rightarrow> string" where
  "unknown_block_message block_id xyz dimension =
     (case (block_id, xyz) of ((block, block_data), (x, y, z)) \<Rightarrow>
        ''unknown block ('' @ str_int block @ '', '' @ str_int block_data @ '') at (''
        @ str_nat x @ '', '' @ str_nat y @ '', '' @ str_nat z @ '') dimension ''
        @ str_int dimension)"

section \<open>\<open>ChunkConverter.place_blocks\<close> (lines 38 to 73)\<close>

text \<open>Lines 64 to 72, the translation of one pair: the \<open>try\<close> looks the pair up in
  \<open>self.blocks\<close>; the \<open>except KeyError\<close> prints one line to stderr and takes the
  netherite block instead. The result is the block and the lines printed.\<close>

definition translate_block ::
  "ChunkConverter \<Rightarrow> block_id \<Rightarrow> nat \<times> nat \<times> nat \<Rightarrow> Block \<times> string list" where
  "translate_block self block_id xyz =
     (case self_blocks self block_id of
        Some block \<Rightarrow> (block, [])
      | None \<Rightarrow> (netherite_block, [unknown_block_message block_id xyz (self_dimension self)]))"

text \<open>The body of the inner loop, lines 52 to 73, for one \<open>(position, block)\<close> of
  \<open>enumerate(blocks[:0x1000])\<close>: decode the coordinate and the nibble, skip the pair
  \<open>(0, 0)\<close>, otherwise translate the pair and set the cell.\<close>

definition place_cell ::
  "ChunkConverter \<Rightarrow> nat \<Rightarrow> byte list \<Rightarrow> nat \<Rightarrow> byte \<Rightarrow> placed \<Rightarrow> error + placed" where
  "place_cell self subchunk_y blocks position block st =
     (case cell_coords subchunk_y position of (x, y, z) \<Rightarrow>
        (case read_block_data blocks position of
           Inl e \<Rightarrow> Inl e
         | Inr block_data \<Rightarrow>
            (let block_id = (uint block, uint block_data)
             in if block_id \<noteq> (0, 0) then
                  (case translate_block self block_id (x, y, z) of
                     (new_block, printed) \<Rightarrow>
                       Inr \<lparr>chunk = set_block new_block x y z (chunk st),
                            stderr = stderr st @ printed\<rparr>)
                else Inr st)))"

text \<open>The inner loop (line 51) over \<open>enumerate(blocks[:0x1000])\<close>; an exception ends it.\<close>

fun place_cells ::
  "ChunkConverter \<Rightarrow> nat \<Rightarrow> byte list \<Rightarrow> (nat \<times> byte) list \<Rightarrow> placed \<Rightarrow> error + placed" where
  "place_cells self subchunk_y blocks [] st = Inr st"
| "place_cells self subchunk_y blocks ((position, block) # rest) st =
     (case place_cell self subchunk_y blocks position block st of
        Inl e \<Rightarrow> Inl e
      | Inr st' \<Rightarrow> place_cells self subchunk_y blocks rest st')"

text \<open>The outer loop (line 49) over \<open>enumerate(self.entry.blocks)\<close>.\<close>

fun place_subchunks ::
  "ChunkConverter \<Rightarrow> (nat \<times> byte list) list \<Rightarrow> placed \<Rightarrow> error + placed" where
  "place_subchunks self [] st = Inr st"
| "place_subchunks self ((subchunk_y, blocks) # rest) st =
     (case place_cells self subchunk_y blocks (enumerate 0 (take 0x1000 blocks)) st of
        Inl e \<Rightarrow> Inl e
      | Inr st' \<Rightarrow> place_subchunks self rest st')"

text \<open>Lines 41 to 47, the branch under \<open>if False and self.corrupted\<close>: every cell of the
  eight subchunks set to the glass block.\<close>

definition fill_corrupted :: "EmptyChunk \<Rightarrow> EmptyChunk" where
  "fill_corrupted c0 =
     fold (\<lambda>subchunk_y c1.
            fold (\<lambda>position c.
                   (case cell_coords subchunk_y position of (x, y, z) \<Rightarrow>
                      set_block corrupted_block x y z c))
                 [0..<0x1000] c1)
          [0..<8] c0"

text \<open>\<open>place_blocks\<close>: the condition of line 40 is written as in the source. In the
  \<open>else\<close> branch \<open>self.entry.blocks\<close> is read; on \<open>self.entry = None\<close> that raises
  \<open>AttributeError\<close>.\<close>

definition place_blocks :: "ChunkConverter \<Rightarrow> error + placed" where
  "place_blocks self =
     (let c = \<lparr>chunk_x = self_region_x self, chunk_z = self_region_z self, cells = Map.empty\<rparr>
      in if False \<and> self_corrupted self then Inr \<lparr>chunk = fill_corrupted c, stderr = []\<rparr>
         else (case self_entry self of
                 None \<Rightarrow> Inl AttributeError
               | Some entry \<Rightarrow>
                   place_subchunks self (enumerate 0 (entry_blocks entry))
                     \<lparr>chunk = c, stderr = []\<rparr>))"

section \<open>Building the converters in \<open>convert\<close> (lines 192 to 197, 224 to 228)\<close>

text \<open>A value of \<open>world.entries\<close> is either the object \<open>True\<close>, which marks a corrupted
  chunk, or an \<open>Entry\<close>.\<close>

datatype world_entry = IsTrue | IsEntry Entry

definition ChunkConverter_init ::
  "position \<Rightarrow> Entry option \<Rightarrow> (block_id \<rightharpoonup> Block) \<Rightarrow> bool \<Rightarrow> ChunkConverter" where
  "ChunkConverter_init position entry blocks corrupted =
     (case position of (rx, rz, dim) \<Rightarrow>
        \<lparr>self_region_x = rx, self_region_z = rz, self_dimension = dim,
         self_entry = entry, self_blocks = blocks, self_corrupted = corrupted\<rparr>)"

text \<open>Lines 193 to 197: one converter per item of \<open>world.entries\<close>.\<close>

definition entry_converter ::
  "(block_id \<rightharpoonup> Block) \<Rightarrow> position \<times> world_entry \<Rightarrow> ChunkConverter" where
  "entry_converter blocks item =
     (case item of
        (position, IsTrue) \<Rightarrow> ChunkConverter_init position None blocks True
      | (position, IsEntry entry) \<Rightarrow> ChunkConverter_init position (Some entry) blocks False)"

text \<open>Lines 225 to 228: the conversion loop calls \<open>place_blocks\<close> on each converter in
  turn; an exception of one call ends the loop and the run.\<close>

fun convert_chunks :: "ChunkConverter list \<Rightarrow> error + placed list" where
  "convert_chunks [] = Inr []"
| "convert_chunks (chunk_converter # rest) =
     (case place_blocks chunk_converter of
        Inl e \<Rightarrow> Inl e
      | Inr st \<Rightarrow> (case convert_chunks rest of Inl e \<Rightarrow> Inl e | Inr sts \<Rightarrow> Inr (st # sts)))"

section \<open>\<open>fix_cdb_index\<close> (lines 133 to 154)\<close>

text \<open>
  An entry of the index, \<open>parser.CDBEntry\<close>: its raw position, the slot and subfile of
  its record, and the parameters of the record header. The parser and \<open>parse_position\<close>
  live in other modules: the raw position has type \<open>'p\<close>, the header parameters
  have type \<open>'h\<close>, and \<open>parse_position\<close> is a parameter of the model. The index file is
  the list of its entries in file order.
\<close>

record ('p, 'h) CDBEntry =
  e_position :: 'p
  e_slot :: int
  e_subfile :: int
  e_parameters :: 'h

text \<open>What \<open>fix_cdb_index\<close> and \<open>convert\<close> read of the \<open>World\<close>: \<open>world.recovered\<close>, the
  copies found for a position in discovery order; \<open>world.cdb[slot][subfile]\<close>, here
  the \<open>_header.parameters\<close> of that record; and \<open>world.entries\<close>.\<close>

record 'h World =
  world_recovered :: "position \<rightharpoonup> (int \<times> int) list"
  world_cdb :: "int \<rightharpoonup> (int \<rightharpoonup> 'h)"
  world_entries :: "(position \<times> world_entry) list"

text \<open>Lines 139 to 150, the loop over \<open>index.entries\<close>. A position with no key in
  \<open>recovered\<close> is skipped (\<open>continue\<close>); \<open>chunk_copies[0]\<close> on an empty list raises
  \<open>IndexError\<close>; a slot or subfile that \<open>world.cdb\<close> does not have raises. The entries
  are returned as the loop leaves them, with the counter.\<close>

fun fix_entries ::
  "('p \<Rightarrow> position) \<Rightarrow> 'h World \<Rightarrow> ('p, 'h) CDBEntry list \<Rightarrow> nat
     \<Rightarrow> error + (('p, 'h) CDBEntry list \<times> nat)" where
  "fix_entries parse_position world [] chunks_fixed = Inr ([], chunks_fixed)"
| "fix_entries parse_position world (entry # rest) chunks_fixed =
     (let position = parse_position (e_position entry)
      in case world_recovered world position of
           None \<Rightarrow>
             (case fix_entries parse_position world rest chunks_fixed of
                Inl e \<Rightarrow> Inl e
              | Inr (entries, n) \<Rightarrow> Inr (entry # entries, n))
         | Some chunk_copies \<Rightarrow>
             (case chunk_copies of
                [] \<Rightarrow> Inl IndexError
              | (slot, subfile) # _ \<Rightarrow>
                  (case world_cdb world slot of
                     None \<Rightarrow> Inl LookupError
                   | Some subfiles \<Rightarrow>
                       (case subfiles subfile of
                          None \<Rightarrow> Inl LookupError
                        | Some new_chunk_parameters \<Rightarrow>
                            (case fix_entries parse_position world rest (chunks_fixed + 1) of
                               Inl e \<Rightarrow> Inl e
                             | Inr (entries, n) \<Rightarrow>
                                 Inr (entry\<lparr>e_slot := slot, e_subfile := subfile,
                                            e_parameters := new_chunk_parameters\<rparr> # entries,
                                      n))))))"

text \<open>\<open>fix_cdb_index\<close>: the index file is read, the loop runs, and the file is written
  back only when the counter is not zero (line 151). The result is the content of the
  index file after the call and the returned counter.\<close>

definition fix_cdb_index ::
  "('p \<Rightarrow> position) \<Rightarrow> ('p, 'h) CDBEntry list \<Rightarrow> 'h World
     \<Rightarrow> error + (('p, 'h) CDBEntry list \<times> nat)" where
  "fix_cdb_index parse_position index_file world =
     (case fix_entries parse_position world index_file 0 of
        Inl e \<Rightarrow> Inl e
      | Inr (entries, chunks_fixed) \<Rightarrow>
          Inr (if chunks_fixed \<noteq> 0 then entries else index_file, chunks_fixed))"

text \<open>Lines 193 to 197 as a whole: the converters of \<open>world.entries\<close>, in order.\<close>

definition entry_converters :: "'h World \<Rightarrow> (block_id \<rightharpoonup> Block) \<Rightarrow> ChunkConverter list" where
  "entry_converters world blocks = map (entry_converter blocks) (world_entries world)"

section \<open>What the repair loop does to one entry\<close>

text \<open>
  Three notions read off lines 140 to 149, used to state what \<open>fix_cdb_index\<close> computes.
  \<open>has_copies\<close>: the lookup \<open>recovered[position]\<close> of line 142 finds a key.
  \<open>first_copy\<close>: lines 145 and 146 succeed, giving the slot and subfile of the first
  copy and the header parameters of its record. \<open>repoint\<close>: the three assignments of
  lines 147 to 149.
\<close>

definition has_copies :: "('p \<Rightarrow> position) \<Rightarrow> 'h World \<Rightarrow> ('p, 'h) CDBEntry \<Rightarrow> bool" where
  "has_copies parse_position world entry =
     (world_recovered world (parse_position (e_position entry)) \<noteq> None)"

definition first_copy :: "'h World \<Rightarrow> position \<Rightarrow> (int \<times> int \<times> 'h) option" where
  "first_copy world position =
     (case world_recovered world position of
        None \<Rightarrow> None
      | Some chunk_copies \<Rightarrow>
          (case chunk_copies of
             [] \<Rightarrow> None
           | (slot, subfile) # _ \<Rightarrow>
               (case world_cdb world slot of
                  None \<Rightarrow> None
                | Some subfiles \<Rightarrow>
                    (case subfiles subfile of
                       None \<Rightarrow> None
                     | Some new_chunk_parameters \<Rightarrow> Some (slot, subfile, new_chunk_parameters)))))"

definition repoint :: "('p \<Rightarrow> position) \<Rightarrow> 'h World \<Rightarrow> ('p, 'h) CDBEntry \<Rightarrow> ('p, 'h) CDBEntry" where
  "repoint parse_position world entry =
     (case first_copy world (parse_position (e_position entry)) of
        None \<Rightarrow> entry
      | Some (slot, subfile, new_chunk_parameters) \<Rightarrow>
          entry\<lparr>e_slot := slot, e_subfile := subfile, e_parameters := new_chunk_parameters\<rparr>)"

section \<open>\<open>parse_block_json\<close> (lines 107 to 130)\<close>

subsection \<open>The Python built-ins it calls\<close>

text \<open>\<open>str.split(sep)\<close> for a separator of one character: the pieces between the
  occurrences of \<open>sep\<close>; never an empty list.\<close>

fun split_str :: "char \<Rightarrow> string \<Rightarrow> string list" where
  "split_str sep [] = [[]]"
| "split_str sep (c # cs) =
     (if c = sep then [] # split_str sep cs
      else (case split_str sep cs of [] \<Rightarrow> [[c]] | piece # pieces \<Rightarrow> (c # piece) # pieces))"

text \<open>\<open>int(s)\<close> on a string of ASCII characters, base ten: white space around the
  literal is dropped, one sign is allowed, and the digits may be grouped by single
  underscores. Anything else raises \<open>ValueError\<close>, here \<open>None\<close>. (The limit on the
  number of digits and the digits beyond ASCII are left out.)\<close>

definition is_space :: "char \<Rightarrow> bool" where
  "is_space c = ((of_char c :: nat) \<in> {9, 10, 11, 12, 13, 28, 29, 30, 31, 32})"

definition is_digit :: "char \<Rightarrow> bool" where
  "is_digit c = (48 \<le> (of_char c :: nat) \<and> (of_char c :: nat) \<le> 57)"

definition digit_val :: "char \<Rightarrow> nat" where
  "digit_val c = of_char c - 48"

fun py_digits :: "string \<Rightarrow> nat \<Rightarrow> nat option" where
  "py_digits [] acc = Some acc"
| "py_digits [c] acc = (if is_digit c then Some (acc * 10 + digit_val c) else None)"
| "py_digits (c # d # ds) acc =
     (if is_digit c then py_digits (d # ds) (acc * 10 + digit_val c)
      else if c = CHR ''_'' \<and> is_digit d then py_digits ds (acc * 10 + digit_val d)
      else None)"

definition py_nat_literal :: "string \<Rightarrow> nat option" where
  "py_nat_literal s =
     (case s of [] \<Rightarrow> None
      | c # cs \<Rightarrow> if is_digit c then py_digits cs (digit_val c) else None)"

definition py_int :: "string \<Rightarrow> int option" where
  "py_int s =
     (let t = rev (dropWhile is_space (rev (dropWhile is_space s)))
      in if t \<noteq> [] \<and> hd t = CHR ''-'' then map_option (\<lambda>n. - int n) (py_nat_literal (tl t))
         else if t \<noteq> [] \<and> hd t = CHR ''+'' then map_option int (py_nat_literal (tl t))
         else map_option int (py_nat_literal t))"

text \<open>\<open>dict(pairs)\<close> on an iterable of lists: each list must have two elements, else
  \<open>ValueError\<close>; a later pair overrides an earlier one with the same key.\<close>

fun py_dict :: "string list list \<Rightarrow> (string \<rightharpoonup> string) \<Rightarrow> error + (string \<rightharpoonup> string)" where
  "py_dict [] d = Inr d"
| "py_dict (item # rest) d =
     (case item of [k, v] \<Rightarrow> py_dict rest (d(k \<mapsto> v)) | _ \<Rightarrow> Inl ValueError)"

subsection \<open>The regular expression of line 108\<close>

text \<open>
  \<open>^([^\[\]]+)(?:\[([^\[\]]*)\])?$\<close> under \<open>match\<close>: a non-empty run of characters that
  are not brackets; then optionally \<open>[\<close>, a run without brackets, \<open>]\<close>; then the end of
  the string, which \<open>$\<close> also accepts just before one final newline. The result is the
  pair of the two groups; the second is \<open>None\<close> when the optional part did not take part.
\<close>

definition not_bracket :: "char \<Rightarrow> bool" where
  "not_bracket c = (c \<noteq> CHR ''['' \<and> c \<noteq> CHR '']'')"

definition block_json_match :: "string \<Rightarrow> (string \<times> string option) option" where
  "block_json_match new =
     (let name = takeWhile not_bracket new; rest = dropWhile not_bracket new
      in if name = [] then None
         else if rest = [] then Some (name, None)
         else if hd rest = CHR ''['' then
           (let props = takeWhile not_bracket (tl rest);
                after = dropWhile not_bracket (tl rest)
            in if after = [CHR '']''] \<or> after = [CHR '']'', CHR 0x0A]
               then Some (name, Some props) else None)
         else None)"

subsection \<open>The loop\<close>

text \<open>Lines 112 and 113: the key \<open>numerical_id\<close> must split at \<open>:\<close> into exactly two
  pieces, both integers.\<close>

definition parse_numerical_id :: "string \<Rightarrow> error + block_id" where
  "parse_numerical_id numerical_id =
     (case split_str CHR '':'' numerical_id of
        [block_str, data_str] \<Rightarrow>
          (case py_int block_str of
             None \<Rightarrow> Inl ValueError
           | Some b \<Rightarrow> (case py_int data_str of None \<Rightarrow> Inl ValueError | Some d \<Rightarrow> Inr (b, d)))
      | _ \<Rightarrow> Inl ValueError)"

text \<open>Lines 116 to 128: the value \<open>new\<close> must match the regular expression; a second
  group that is present and not empty is split into \<open>key=value\<close> items; the name must
  split at \<open>:\<close> into namespace and block.\<close>

definition parse_new :: "string \<Rightarrow> error + Block" where
  "parse_new new =
     (case block_json_match new of
        None \<Rightarrow> Inl ValueError
      | Some (name, raw_nbt_data) \<Rightarrow>
          (case (if raw_nbt_data \<noteq> None \<and> raw_nbt_data \<noteq> Some []
                 then py_dict (map (split_str CHR ''='') (split_str CHR '','' (the raw_nbt_data)))
                        Map.empty
                 else Inr Map.empty) of
             Inl e \<Rightarrow> Inl e
           | Inr nbt_data \<Rightarrow>
               (case split_str CHR '':'' name of
                  [namespace, block] \<Rightarrow>
                    Inr \<lparr>b_namespace = namespace, b_id = block, b_properties = nbt_data\<rparr>
                | _ \<Rightarrow> Inl ValueError)))"

text \<open>The loop of line 111 over the items of \<open>raw_blocks["blocks"]\<close>, in their order.\<close>

fun parse_items ::
  "(string \<times> string) list \<Rightarrow> (block_id \<rightharpoonup> Block) \<Rightarrow> error + (block_id \<rightharpoonup> Block)" where
  "parse_items [] blocks = Inr blocks"
| "parse_items ((numerical_id, new) # rest) blocks =
     (case parse_numerical_id numerical_id of
        Inl e \<Rightarrow> Inl e
      | Inr block_id \<Rightarrow>
          (case parse_new new of
             Inl e \<Rightarrow> Inl e
           | Inr b \<Rightarrow> parse_items rest (blocks(block_id \<mapsto> b))))"


section \<open>Cell coordinates and nibbles\<close>

lemma and15: "(p::nat) AND 0xF = p mod 16"
  using take_bit_eq_mask[of 4 p] by (simp add: take_bit_eq_mod mask_eq_exp_minus_1)

lemma and240: "drop_bit 4 ((p::nat) AND 0xF0) = (p div 16) mod 16"
proof -
  have a: "drop_bit 4 (0xF0::nat) = 0xF" by (simp add: drop_bit_eq_div)
  have "drop_bit 4 (p AND 0xF0) = drop_bit 4 p AND drop_bit 4 (0xF0::nat)"
    by (rule drop_bit_and)
  also have "\<dots> = drop_bit 4 p AND 0xF" by (simp only: a)
  also have "\<dots> = drop_bit 4 p mod 16" by (rule and15)
  also have "\<dots> = (p div 16) mod 16" by (simp add: drop_bit_eq_div)
  finally show ?thesis .
qed

lemma cell_coords_eq: "cell_coords s p = (p div 256, p mod 16 + s * 16, (p div 16) mod 16)"
  unfolding cell_coords_def Let_def and15 and240 by (simp add: drop_bit_eq_div)

lemma cell_index_recompose: "(y::nat) div 256 * 256 + y div 16 mod 16 * 16 + y mod 16 = y"
proof -
  have "y mod 256 = 16 * (y div 16 mod 16) + y mod 16"
    using mod_mult2_eq[of y 16 16] by simp
  moreover have "y = y div 256 * 256 + y mod 256" by simp
  ultimately show ?thesis by simp
qed

lemma cell_index_decomp:
  fixes x z r :: nat
  assumes "z < 16" "r < 16"
  shows "(x * 256 + z * 16 + r) div 256 = x"
    and "(x * 256 + z * 16 + r) div 16 mod 16 = z"
    and "(x * 256 + z * 16 + r) mod 16 = r"
proof -
  have e: "x * 256 + z * 16 + r = (x * 16 + z) * 16 + r" by simp
  have "z * 16 + r < 256" using assms by simp
  then have "(z * 16 + r + x * 256) div 256 = x" by simp
  then show "(x * 256 + z * 16 + r) div 256 = x" by (simp add: add.commute add.left_commute)
  have "((x * 16 + z) * 16 + r) div 16 = x * 16 + z + r div 16"
    by (rule div_mult_self3) simp
  with assms have d: "(x * 256 + z * 16 + r) div 16 = x * 16 + z"
    by (simp only: e div_less add_0_right)
  have "(z + x * 16) mod 16 = z mod 16" by (rule mod_mult_self1)
  with assms show "(x * 256 + z * 16 + r) div 16 mod 16 = z"
    by (simp only: d add.commute[of "x * 16" z] mod_less)
  have "((x * 16 + z) * 16 + r) mod 16 = r mod 16" by (rule mod_mult_self3)
  with assms show "(x * 256 + z * 16 + r) mod 16 = r"
    by (simp only: e mod_less)
qed

text \<open>
  Claim C5. Over the eight subchunks and the \<open>0x1000\<close> cell indices of each, the decoding
  \<open>x = position >> 8\<close>, \<open>z = (position & 0xF0) >> 4\<close>, \<open>y = (position & 0xF) + 16 * subchunk_y\<close>
  is a bijection onto the chunk volume \<open>x < 16\<close>, \<open>y < 128\<close>, \<open>z < 16\<close>: every cell of
  the volume is produced by exactly one pair of subchunk and index.
\<close>

theorem C5_cell_coords_bijection:
  "bij_betw (\<lambda>(subchunk_y, position). cell_coords subchunk_y position)
     ({0..<8} \<times> {0..<0x1000}) ({0..<16} \<times> {0..<128} \<times> {0..<16})"
proof (rule bij_betw_byWitness[where f' = "\<lambda>(x, y, z). (y div 16, x * 256 + z * 16 + y mod 16)"])
  show "\<forall>a\<in>{0..<8} \<times> {0..<0x1000}.
          (case case a of (subchunk_y, position) \<Rightarrow> cell_coords subchunk_y position of
             (x, y, z) \<Rightarrow> (y div 16, x * 256 + z * 16 + y mod 16)) = a"
    by (auto simp: cell_coords_eq cell_index_recompose)
  show "\<forall>a'\<in>{0..<16} \<times> {0..<128} \<times> {0..<16}.
          (case case a' of (x, y, z) \<Rightarrow> (y div 16, x * 256 + z * 16 + y mod 16) of
             (subchunk_y, position) \<Rightarrow> cell_coords subchunk_y position) = a'"
    by (auto simp: cell_coords_eq cell_index_decomp)
  show "(\<lambda>(subchunk_y, position). cell_coords subchunk_y position) ` ({0..<8} \<times> {0..<0x1000})
          \<subseteq> {0..<16} \<times> {0..<128} \<times> {0..<16}"
    by (auto simp: cell_coords_eq less_mult_imp_div_less)
  show "(\<lambda>(x, y, z). (y div 16, x * 256 + z * 16 + y mod 16)) ` ({0..<16} \<times> {0..<128} \<times> {0..<16})
          \<subseteq> {0..<8::nat} \<times> {0..<0x1000::nat}"
    by (auto simp: less_mult_imp_div_less)
qed

lemma unat_low_nibble: "unat ((b::byte) AND 0xF) = unat b mod 16"
proof -
  have "unat (b AND 0xF) = unat b AND unat (0xF::byte)" by (rule unsigned_and_eq)
  then show ?thesis by (simp add: and15)
qed

lemma unat_high_nibble: "unat (drop_bit 4 (b::byte)) = unat b div 16"
proof -
  have "unat (drop_bit 4 b) = drop_bit 4 (unat b)" by (rule unat_drop_bit_eq)
  also have "\<dots> = unat b div 2 ^ 4" by (rule drop_bit_eq_div)
  finally show ?thesis by simp
qed

text \<open>
  Claim C7. The data nibble of cell index \<open>p\<close> is read from the byte at offset
  \<open>0x1000 + p div 2\<close> of the subchunk payload: its low nibble for even \<open>p\<close>, its high
  nibble for odd \<open>p\<close>. With the byte \<open>0x37\<close> at pair index \<open>k\<close>, cell \<open>2k\<close> gets the data
  value 7 and cell \<open>2k + 1\<close> the data value 3.
\<close>

theorem C7_data_nibble:
  "(0x1000 + p div 2 < length blocks \<longrightarrow>
      (\<exists>n. read_block_data blocks p = Inr n
         \<and> unat n = (if even p then unat (blocks ! (0x1000 + p div 2)) mod 16
                     else unat (blocks ! (0x1000 + p div 2)) div 16)))
   \<and> (0x1000 + k < length blocks \<and> blocks ! (0x1000 + k) = 0x37 \<longrightarrow>
        read_block_data blocks (2 * k) = Inr 7 \<and> read_block_data blocks (2 * k + 1) = Inr 3)"
proof (intro conjI impI)
  assume "0x1000 + p div 2 < length blocks"
  then show "\<exists>n. read_block_data blocks p = Inr n
         \<and> unat n = (if even p then unat (blocks ! (0x1000 + p div 2)) mod 16
                     else unat (blocks ! (0x1000 + p div 2)) div 16)"
    by (simp add: read_block_data_def Let_def unat_low_nibble unat_high_nibble even_iff_mod_2_eq_zero)
next
  assume "0x1000 + k < length blocks \<and> blocks ! (0x1000 + k) = 0x37"
  then show "read_block_data blocks (2 * k) = Inr 7"
    by (simp add: read_block_data_def Let_def)
next
  assume "0x1000 + k < length blocks \<and> blocks ! (0x1000 + k) = 0x37"
  then show "read_block_data blocks (2 * k + 1) = Inr 3"
    by (simp add: read_block_data_def Let_def)
qed

theorem C7_data_nibble_witness:
  "read_block_data (replicate 0x1000 0 @ [0x37]) 0 = Inr 7
   \<and> read_block_data (replicate 0x1000 0 @ [0x37]) 1 = Inr 3
   \<and> (\<exists>n. read_block_data (replicate 0x1000 0 @ [0x37]) 1 = Inr n \<and> unat n = 3)"
  using C7_data_nibble [of 1 "replicate 0x1000 0 @ [0x37]" 0]
  by (simp add: nth_append)

section \<open>Placing the cells\<close>


lemma place_cell_air:
  assumes "read_block_data blocks position = Inr 0"
  shows "place_cell self subchunk_y blocks position 0 st = Inr st"
  using assms by (simp add: place_cell_def Let_def split: prod.split)

lemma read_block_data_zero:
  assumes "\<forall>b\<in>set blocks. b = 0" and "0x1800 \<le> length blocks" and "position < 0x1000"
  shows "read_block_data blocks position = Inr 0"
proof -
  have "0x1000 + position div 2 < length blocks" using assms(2,3) by simp
  moreover from this have "blocks ! (0x1000 + position div 2) = 0"
    using assms(1) nth_mem by blast
  ultimately show ?thesis by (simp add: read_block_data_def)
qed

lemma place_cells_air:
  assumes "\<forall>b\<in>set blocks. b = 0" and "0x1800 \<le> length blocks"
    and "\<forall>(position, block)\<in>set ps. position < 0x1000 \<and> block = 0"
  shows "place_cells self subchunk_y blocks ps st = Inr st"
  using assms(3)
proof (induction ps)
  case Nil
  show ?case by simp
next
  case (Cons pb ps)
  obtain position block where pb: "pb = (position, block)" by (cases pb)
  with Cons.prems have "position < 0x1000" "block = 0" by auto
  then have "place_cell self subchunk_y blocks position block st = Inr st"
    using read_block_data_zero[OF assms(1,2)] place_cell_air by simp
  moreover have "place_cells self subchunk_y blocks ps st = Inr st"
    using Cons by simp
  ultimately show ?case by (simp add: pb)
qed

lemma place_subchunks_air:
  assumes "\<forall>(subchunk_y, blocks)\<in>set sbs. 0x1800 \<le> length blocks \<and> (\<forall>b\<in>set blocks. b = 0)"
  shows "place_subchunks self sbs st = Inr st"
  using assms
proof (induction sbs)
  case Nil
  show ?case by simp
next
  case (Cons sb sbs)
  obtain subchunk_y blocks where sb: "sb = (subchunk_y, blocks)" by (cases sb)
  with Cons.prems have z: "\<forall>b\<in>set blocks. b = 0" and l: "0x1800 \<le> length blocks" by auto
  have "\<forall>(position, block)\<in>set (enumerate 0 (take 0x1000 blocks)). position < 0x1000 \<and> block = 0"
    using z by (auto simp: in_set_enumerate_eq dest: in_set_takeD)
  then have "place_cells self subchunk_y blocks (enumerate 0 (take 0x1000 blocks)) st = Inr st"
    by (rule place_cells_air[OF z l])
  moreover have "place_subchunks self sbs st = Inr st" using Cons by simp
  ultimately show ?case by (simp add: sb)
qed





text \<open>
  Claim C8. A cell whose pair of block id and data value is \<open>(0, 0)\<close> is skipped: nothing
  is set and nothing is printed. So a chunk whose payloads are all zero (each with its
  \<open>0x1000\<close> block-id bytes and \<open>0x800\<close> nibble bytes) comes out with no cell set.
\<close>

theorem C8_air_is_skipped:
  "(read_block_data blocks position = Inr 0 \<longrightarrow>
      place_cell self subchunk_y blocks position 0 st = Inr st)
   \<and> (self_entry self = Some entry
       \<and> (\<forall>payload\<in>set (entry_blocks entry).
             0x1800 \<le> length payload \<and> (\<forall>b\<in>set payload. b = 0)) \<longrightarrow>
       place_blocks self =
         Inr \<lparr>chunk = \<lparr>chunk_x = self_region_x self, chunk_z = self_region_z self,
                       cells = Map.empty\<rparr>,
              stderr = []\<rparr>)"
proof (intro conjI impI)
  assume "read_block_data blocks position = Inr 0"
  then show "place_cell self subchunk_y blocks position 0 st = Inr st"
    by (rule place_cell_air)
next
  assume a: "self_entry self = Some entry
       \<and> (\<forall>payload\<in>set (entry_blocks entry).
             0x1800 \<le> length payload \<and> (\<forall>b\<in>set payload. b = 0))"
  then have "\<forall>(subchunk_y, payload)\<in>set (enumerate 0 (entry_blocks entry)).
          0x1800 \<le> length payload \<and> (\<forall>b\<in>set payload. b = 0)"
    by (auto simp: in_set_enumerate_eq)
  then show "place_blocks self =
         Inr \<lparr>chunk = \<lparr>chunk_x = self_region_x self, chunk_z = self_region_z self,
                       cells = Map.empty\<rparr>,
              stderr = []\<rparr>"
    using a by (simp add: place_blocks_def place_subchunks_air)
qed

theorem C8_air_is_skipped_witness:
  "place_blocks
     \<lparr>self_region_x = 5, self_region_z = 5, self_dimension = 0,
      self_entry = Some \<lparr>entry_blocks = replicate 8 (replicate 0x1800 0)\<rparr>,
      self_blocks = Map.empty, self_corrupted = False\<rparr>
   = Inr \<lparr>chunk = \<lparr>chunk_x = 5, chunk_z = 5, cells = Map.empty\<rparr>, stderr = []\<rparr>
   \<and> place_cell
       \<lparr>self_region_x = 5, self_region_z = 5, self_dimension = 0,
        self_entry = Some \<lparr>entry_blocks = replicate 8 (replicate 0x1800 0)\<rparr>,
        self_blocks = Map.empty, self_corrupted = False\<rparr>
       0 (replicate 0x1800 0) 7 0 \<lparr>chunk = \<lparr>chunk_x = 5, chunk_z = 5, cells = Map.empty\<rparr>, stderr = []\<rparr>
     = Inr \<lparr>chunk = \<lparr>chunk_x = 5, chunk_z = 5, cells = Map.empty\<rparr>, stderr = []\<rparr>"
  using C8_air_is_skipped
    [of "replicate 0x1800 0" 7
        "\<lparr>self_region_x = 5, self_region_z = 5, self_dimension = 0,
          self_entry = Some \<lparr>entry_blocks = replicate 8 (replicate 0x1800 0)\<rparr>,
          self_blocks = Map.empty, self_corrupted = False\<rparr>"
        0 "\<lparr>chunk = \<lparr>chunk_x = 5, chunk_z = 5, cells = Map.empty\<rparr>, stderr = []\<rparr>"
        "\<lparr>entry_blocks = replicate 8 (replicate 0x1800 0)\<rparr>"]
  by (simp add: read_block_data_def)

text \<open>
  Claim C3. The placeholder of a corrupted chunk with no recovered copy is built with
  \<open>entry = None\<close> (line 195). With the fill branch disabled by \<open>if False and\<close>,
  \<open>place_blocks\<close> takes the \<open>else\<close> branch, reads \<open>self.entry.blocks\<close> and raises: no
  chunk is produced, and the conversion loop ends with the exception.
\<close>

theorem C3_placeholder_raises:
  "place_blocks (entry_converter blocks (position, IsTrue)) = Inl AttributeError
   \<and> convert_chunks (entry_converter blocks (position, IsTrue) # rest) = Inl AttributeError"
  by (simp add: place_blocks_def entry_converter_def ChunkConverter_init_def split: prod.split)

section \<open>Repairing the index\<close>

lemma first_copy_None: "world_recovered w p = None \<Longrightarrow> first_copy w p = None"
  by (simp add: first_copy_def)

lemma fix_entries_eq:
  assumes "\<forall>e\<in>set idx. has_copies pp w e \<longrightarrow> first_copy w (pp (e_position e)) \<noteq> None"
  shows "fix_entries pp w idx k =
           Inr (map (repoint pp w) idx, k + length (filter (has_copies pp w) idx))"
  using assms
proof (induction idx arbitrary: k)
  case Nil
  show ?case by simp
next
  case (Cons e idx)
  then have IH: "\<And>k. fix_entries pp w idx k =
      Inr (map (repoint pp w) idx, k + length (filter (has_copies pp w) idx))"
    by simp
  show ?case
  proof (cases "world_recovered w (pp (e_position e))")
    case None
    then have "\<not> has_copies pp w e" and "repoint pp w e = e"
      by (simp_all add: has_copies_def repoint_def first_copy_None)
    with None show ?thesis
      by (simp add: IH Let_def)
  next
    case (Some cs)
    then have hc: "has_copies pp w e" by (simp add: has_copies_def)
    with Cons.prems obtain slot subfile hdr where
      fc: "first_copy w (pp (e_position e)) = Some (slot, subfile, hdr)"
      by fastforce
    with Some obtain rest subfiles where
        "cs = (slot, subfile) # rest" "world_cdb w slot = Some subfiles" "subfiles subfile = Some hdr"
      by (auto simp: first_copy_def split: list.splits option.splits)
    moreover have "repoint pp w e = e\<lparr>e_slot := slot, e_subfile := subfile, e_parameters := hdr\<rparr>"
      by (simp add: repoint_def fc)
    ultimately show ?thesis
      using Some hc by (simp add: IH Let_def)
  qed
qed

lemma fix_entries_Inr_ok:
  "fix_entries pp w idx k = Inr r \<Longrightarrow>
     \<forall>e\<in>set idx. has_copies pp w e \<longrightarrow> first_copy w (pp (e_position e)) \<noteq> None"
proof (induction idx arbitrary: k r)
  case Nil
  show ?case by simp
next
  case (Cons e idx)
  show ?case
  proof (cases "world_recovered w (pp (e_position e))")
    case None
    with Cons.prems obtain r' where "fix_entries pp w idx k = Inr r'"
      by (auto simp: Let_def split: sum.splits)
    from Cons.IH[OF this] None show ?thesis by (simp add: has_copies_def)
  next
    case (Some cs)
    with Cons.prems obtain r' where "fix_entries pp w idx (k + 1) = Inr r'"
      and "first_copy w (pp (e_position e)) \<noteq> None"
      by (auto simp: Let_def first_copy_def split: sum.splits list.splits option.splits)
    with Cons.IH[of "k + 1" r'] show ?thesis by simp
  qed
qed

lemma e_position_repoint: "e_position (repoint pp w e) = e_position e"
  by (simp add: repoint_def split: option.splits prod.splits)

lemma repoint_idem: "repoint pp w (repoint pp w e) = repoint pp w e"
  by (simp add: repoint_def split: option.splits prod.splits)

lemma has_copies_repoint: "has_copies pp w (repoint pp w e) = has_copies pp w e"
  by (simp add: has_copies_def e_position_repoint)

lemma fix_cdb_index_eq:
  assumes "\<forall>e\<in>set idx. has_copies pp w e \<longrightarrow> first_copy w (pp (e_position e)) \<noteq> None"
  shows "fix_cdb_index pp idx w =
           Inr (map (repoint pp w) idx, length (filter (has_copies pp w) idx))"
proof -
  have "map (repoint pp w) idx = idx" if "length (filter (has_copies pp w) idx) = 0"
  proof -
    from that have "\<forall>e\<in>set idx. \<not> has_copies pp w e"
      by (simp add: filter_empty_conv)
    then have "\<forall>e\<in>set idx. repoint pp w e = e"
      by (simp add: repoint_def has_copies_def first_copy_None)
    then show ?thesis by (simp add: map_idI)
  qed
  then show ?thesis
    using fix_entries_eq[OF assms, of 0] by (auto simp: fix_cdb_index_def)
qed

text \<open>
  Claim C1, as stated, fails: the loop compares nothing. An entry whose parameters
  already equal the header of the first copy (both 7 here) is still overwritten (its
  slot and subfile change) and still counted.
\<close>

theorem C1_counts_equal_header_counterexample:
  "fix_cdb_index id [\<lparr>e_position = (5, 5, 0), e_slot = 1, e_subfile = 1, e_parameters = 7\<rparr>]
     \<lparr>world_recovered = [(5, 5, 0) \<mapsto> [(2, 9)]], world_cdb = [2 \<mapsto> [9 \<mapsto> 7::nat]],
        world_entries = [((5, 5, 0), IsTrue)]\<rparr>
   = Inr ([\<lparr>e_position = (5, 5, 0), e_slot = 2, e_subfile = 9, e_parameters = 7\<rparr>], 1)"
  by (simp add: fix_cdb_index_def)

text \<open>
  Claim C1, amended. Provided every index entry whose position is a key of the
  recovered set has a first copy whose record the database holds, \<open>fix_cdb_index\<close>
  returns; every such entry has its slot, subfile and parameters overwritten with the
  slot and subfile of the first copy and the header parameters of its record, whether
  or not those parameters differ from the old ones; every other entry is unchanged;
  and the returned count is the number of entries whose position is a key of the
  recovered set.
\<close>

theorem C1_overwrites_and_counts_every_recovered_entry:
  assumes "\<forall>e\<in>set index_file.
             has_copies parse_position world e \<longrightarrow>
             first_copy world (parse_position (e_position e)) \<noteq> None"
  shows "fix_cdb_index parse_position index_file world =
           Inr (map (repoint parse_position world) index_file,
                length (filter (has_copies parse_position world) index_file))"
  using assms by (rule fix_cdb_index_eq)

theorem C1_overwrites_and_counts_every_recovered_entry_witness:
  "fix_cdb_index id [\<lparr>e_position = (6, 6, 0), e_slot = 3, e_subfile = 4, e_parameters = 8\<rparr>, \<lparr>e_position = (5, 5, 0), e_slot = 1, e_subfile = 1, e_parameters = 7\<rparr>]
     \<lparr>world_recovered = [(5, 5, 0) \<mapsto> [(2, 9)]], world_cdb = [2 \<mapsto> [9 \<mapsto> 7::nat]],
        world_entries = [((5, 5, 0), IsTrue)]\<rparr>
   = Inr ([\<lparr>e_position = (6, 6, 0), e_slot = 3, e_subfile = 4, e_parameters = 8\<rparr>, \<lparr>e_position = (5, 5, 0), e_slot = 2, e_subfile = 9, e_parameters = 7\<rparr>], 1)"
proof -
  have "\<forall>e\<in>set [\<lparr>e_position = (6, 6, 0), e_slot = 3, e_subfile = 4, e_parameters = 8\<rparr>, \<lparr>e_position = (5, 5, 0), e_slot = 1, e_subfile = 1, e_parameters = 7\<rparr>].
          has_copies id \<lparr>world_recovered = [(5, 5, 0) \<mapsto> [(2, 9)]], world_cdb = [2 \<mapsto> [9 \<mapsto> 7::nat]],
        world_entries = [((5, 5, 0), IsTrue)]\<rparr> e \<longrightarrow>
          first_copy \<lparr>world_recovered = [(5, 5, 0) \<mapsto> [(2, 9)]], world_cdb = [2 \<mapsto> [9 \<mapsto> 7::nat]],
        world_entries = [((5, 5, 0), IsTrue)]\<rparr> (id (e_position e)) \<noteq> None"
    by (simp add: first_copy_def has_copies_def)
  from C1_overwrites_and_counts_every_recovered_entry [OF this]
  show ?thesis
    by (simp add: repoint_def first_copy_def has_copies_def)
qed

text \<open>
  Claim C2, as stated, fails: the second run of \<open>fix_cdb_index\<close> on the index that the
  first run wrote, with the same world, returns 1 again, not 0.
\<close>

theorem C2_second_run_counts_again_counterexample:
  "fix_cdb_index id [\<lparr>e_position = (5, 5, 0), e_slot = 1, e_subfile = 1, e_parameters = 0\<rparr>]
     \<lparr>world_recovered = [(5, 5, 0) \<mapsto> [(2, 9)]], world_cdb = [2 \<mapsto> [9 \<mapsto> 7::nat]],
        world_entries = [((5, 5, 0), IsTrue)]\<rparr>
   = Inr ([\<lparr>e_position = (5, 5, 0), e_slot = 2, e_subfile = 9, e_parameters = 7\<rparr>], 1)
   \<and> fix_cdb_index id [\<lparr>e_position = (5, 5, 0), e_slot = 2, e_subfile = 9, e_parameters = 7\<rparr>]
     \<lparr>world_recovered = [(5, 5, 0) \<mapsto> [(2, 9)]], world_cdb = [2 \<mapsto> [9 \<mapsto> 7::nat]],
        world_entries = [((5, 5, 0), IsTrue)]\<rparr>
   = Inr ([\<lparr>e_position = (5, 5, 0), e_slot = 2, e_subfile = 9, e_parameters = 7\<rparr>], 1)"
  by (simp add: fix_cdb_index_def)

text \<open>
  Claim C2, amended. When a run of \<open>fix_cdb_index\<close> returns, a second run in succession
  with the same world returns too, leaves the index file as the first run left it, and
  returns the same count as the first run.
\<close>

theorem C2_second_run_same_index_same_count:
  assumes "fix_cdb_index parse_position index_file world = Inr (index_file', n)"
  shows "fix_cdb_index parse_position index_file' world = Inr (index_file', n)"
proof -
  from assms obtain r where "fix_entries parse_position world index_file 0 = Inr r"
    by (auto simp: fix_cdb_index_def split: sum.splits)
  then have ok: "\<forall>e\<in>set index_file. has_copies parse_position world e \<longrightarrow>
      first_copy world (parse_position (e_position e)) \<noteq> None"
    by (rule fix_entries_Inr_ok)
  from assms fix_cdb_index_eq[OF ok]
  have idx': "index_file' = map (repoint parse_position world) index_file"
    and n: "n = length (filter (has_copies parse_position world) index_file)"
    by simp_all
  have ok': "\<forall>e\<in>set index_file'. has_copies parse_position world e \<longrightarrow>
      first_copy world (parse_position (e_position e)) \<noteq> None"
    using ok by (auto simp: idx' has_copies_repoint e_position_repoint)
  have "map (repoint parse_position world) index_file' = index_file'"
    by (simp add: idx' repoint_idem)
  moreover have "length (filter (has_copies parse_position world) index_file') = n"
    by (simp add: idx' n filter_map o_def has_copies_repoint)
  ultimately show ?thesis
    using fix_cdb_index_eq[OF ok'] by simp
qed

theorem C2_second_run_same_index_same_count_witness:
  "fix_cdb_index id [\<lparr>e_position = (5, 5, 0), e_slot = 1, e_subfile = 1, e_parameters = 0\<rparr>, \<lparr>e_position = (6, 6, 0), e_slot = 3, e_subfile = 4, e_parameters = 8\<rparr>]
     \<lparr>world_recovered = [(5, 5, 0) \<mapsto> [(2, 9)]], world_cdb = [2 \<mapsto> [9 \<mapsto> 7::nat]],
        world_entries = [((5, 5, 0), IsTrue)]\<rparr>
   = Inr ([\<lparr>e_position = (5, 5, 0), e_slot = 2, e_subfile = 9, e_parameters = 7\<rparr>, \<lparr>e_position = (6, 6, 0), e_slot = 3, e_subfile = 4, e_parameters = 8\<rparr>], 1)
   \<and> fix_cdb_index id [\<lparr>e_position = (5, 5, 0), e_slot = 2, e_subfile = 9, e_parameters = 7\<rparr>, \<lparr>e_position = (6, 6, 0), e_slot = 3, e_subfile = 4, e_parameters = 8\<rparr>]
     \<lparr>world_recovered = [(5, 5, 0) \<mapsto> [(2, 9)]], world_cdb = [2 \<mapsto> [9 \<mapsto> 7::nat]],
        world_entries = [((5, 5, 0), IsTrue)]\<rparr>
   = Inr ([\<lparr>e_position = (5, 5, 0), e_slot = 2, e_subfile = 9, e_parameters = 7\<rparr>, \<lparr>e_position = (6, 6, 0), e_slot = 3, e_subfile = 4, e_parameters = 8\<rparr>], 1)"
proof -
  have first: "fix_cdb_index id [\<lparr>e_position = (5, 5, 0), e_slot = 1, e_subfile = 1, e_parameters = 0\<rparr>, \<lparr>e_position = (6, 6, 0), e_slot = 3, e_subfile = 4, e_parameters = 8\<rparr>]
     \<lparr>world_recovered = [(5, 5, 0) \<mapsto> [(2, 9)]], world_cdb = [2 \<mapsto> [9 \<mapsto> 7::nat]],
        world_entries = [((5, 5, 0), IsTrue)]\<rparr>
   = Inr ([\<lparr>e_position = (5, 5, 0), e_slot = 2, e_subfile = 9, e_parameters = 7\<rparr>, \<lparr>e_position = (6, 6, 0), e_slot = 3, e_subfile = 4, e_parameters = 8\<rparr>], 1)"
    by (simp add: fix_cdb_index_def)
  from C2_second_run_same_index_same_count [OF first] first
  show ?thesis by simp
qed

text \<open>
  Claim C4. The index has an entry for position \<open>(5, 5, OVERWORLD)\<close>, the recovered set
  maps that position to the single copy at slot 2, subfile 9, and no other entry of the
  index has a position in the recovered set. Then \<open>fix_cdb_index\<close> sets that entry's
  slot to 2, its subfile to 9 and its parameters to the header parameters of that
  record, leaves the other entries as they are, and returns 1.
\<close>

theorem C4_scenario_repair:
  assumes "parse_position (e_position entry) = (5, 5, OVERWORLD)"
    and "world_recovered world (5, 5, OVERWORLD) = Some [(2, 9)]"
    and "world_cdb world 2 = Some subfiles" and "subfiles 9 = Some header"
    and "\<forall>e\<in>set pre \<union> set post. world_recovered world (parse_position (e_position e)) = None"
  shows "fix_cdb_index parse_position (pre @ entry # post) world =
           Inr (pre @ entry\<lparr>e_slot := 2, e_subfile := 9, e_parameters := header\<rparr> # post, 1)"
proof -
  have fc: "first_copy world (parse_position (e_position entry)) = Some (2, 9, header)"
    using assms(1-4) by (simp add: first_copy_def)
  have hc: "has_copies parse_position world entry"
    using assms(1,2) by (simp add: has_copies_def)
  have others: "\<forall>e\<in>set pre \<union> set post.
      \<not> has_copies parse_position world e \<and> repoint parse_position world e = e"
    using assms(5) by (simp add: has_copies_def repoint_def first_copy_None)
  then have m: "map (repoint parse_position world) pre = pre"
      "map (repoint parse_position world) post = post"
    by (simp_all add: map_idI)
  from others have f: "filter (has_copies parse_position world) pre = []"
      "filter (has_copies parse_position world) post = []"
    by (simp_all add: filter_empty_conv)
  have ok: "\<forall>e\<in>set (pre @ entry # post). has_copies parse_position world e \<longrightarrow>
      first_copy world (parse_position (e_position e)) \<noteq> None"
    using others fc by auto
  show ?thesis
    using fix_cdb_index_eq[OF ok] by (simp add: m f hc) (simp add: repoint_def fc)
qed

theorem C4_scenario_repair_witness:
  "fix_cdb_index id [\<lparr>e_position = (6, 6, 0), e_slot = 3, e_subfile = 4, e_parameters = 8\<rparr>, \<lparr>e_position = (5, 5, 0), e_slot = 1, e_subfile = 1, e_parameters = 0\<rparr>, \<lparr>e_position = (5, 6, 1), e_slot = 4, e_subfile = 0, e_parameters = 9\<rparr>]
     \<lparr>world_recovered = [(5, 5, 0) \<mapsto> [(2, 9)]], world_cdb = [2 \<mapsto> [9 \<mapsto> 7::nat]],
        world_entries = [((5, 5, 0), IsTrue)]\<rparr>
   = Inr ([\<lparr>e_position = (6, 6, 0), e_slot = 3, e_subfile = 4, e_parameters = 8\<rparr>, \<lparr>e_position = (5, 5, 0), e_slot = 2, e_subfile = 9, e_parameters = 7\<rparr>, \<lparr>e_position = (5, 6, 1), e_slot = 4, e_subfile = 0, e_parameters = 9\<rparr>], 1)"
proof -
  have h1: "id (e_position (\<lparr>e_position = (5, 5, 0), e_slot = 1, e_subfile = 1, e_parameters = 0\<rparr> :: (position, nat) CDBEntry)) = (5, 5, OVERWORLD)"
    by (simp add: OVERWORLD_def)
  have h2: "world_recovered \<lparr>world_recovered = [(5, 5, 0) \<mapsto> [(2, 9)]], world_cdb = [2 \<mapsto> [9 \<mapsto> 7::nat]],
        world_entries = [((5, 5, 0), IsTrue)]\<rparr> (5, 5, OVERWORLD) = Some [(2, 9)]"
    by (simp add: OVERWORLD_def)
  have h3: "world_cdb \<lparr>world_recovered = [(5, 5, 0) \<mapsto> [(2, 9)]], world_cdb = [2 \<mapsto> [9 \<mapsto> 7::nat]],
        world_entries = [((5, 5, 0), IsTrue)]\<rparr> 2 = Some [9 \<mapsto> 7]"
    by simp
  have h4: "[9 \<mapsto> 7::nat] (9::int) = Some 7"
    by simp
  have h5: "\<forall>e\<in>set [\<lparr>e_position = (6, 6, 0), e_slot = 3, e_subfile = 4, e_parameters = 8\<rparr>] \<union> set [\<lparr>e_position = (5, 6, 1), e_slot = 4, e_subfile = 0, e_parameters = 9\<rparr>]. world_recovered \<lparr>world_recovered = [(5, 5, 0) \<mapsto> [(2, 9)]], world_cdb = [2 \<mapsto> [9 \<mapsto> 7::nat]],
        world_entries = [((5, 5, 0), IsTrue)]\<rparr> (id (e_position e)) = None"
    by simp
  have "fix_cdb_index id
          ([\<lparr>e_position = (6, 6, 0), e_slot = 3, e_subfile = 4, e_parameters = 8\<rparr>] @ \<lparr>e_position = (5, 5, 0), e_slot = 1, e_subfile = 1, e_parameters = 0\<rparr> # [\<lparr>e_position = (5, 6, 1), e_slot = 4, e_subfile = 0, e_parameters = 9\<rparr>])
          \<lparr>world_recovered = [(5, 5, 0) \<mapsto> [(2, 9)]], world_cdb = [2 \<mapsto> [9 \<mapsto> 7::nat]],
        world_entries = [((5, 5, 0), IsTrue)]\<rparr>
        = Inr ([\<lparr>e_position = (6, 6, 0), e_slot = 3, e_subfile = 4, e_parameters = 8\<rparr>] @ \<lparr>e_position = (5, 5, 0), e_slot = 1, e_subfile = 1, e_parameters = 0\<rparr>\<lparr>e_slot := 2, e_subfile := 9, e_parameters := 7\<rparr> # [\<lparr>e_position = (5, 6, 1), e_slot = 4, e_subfile = 0, e_parameters = 9\<rparr>], 1)"
    by (rule C4_scenario_repair [OF h1 h2 h3 h4 h5])
  then show ?thesis by simp
qed

section \<open>Parsing the block table\<close>



lemma parse_numerical_id_error: "parse_numerical_id k = Inl e \<Longrightarrow> e = ValueError"
  by (auto simp: parse_numerical_id_def split: list.splits option.splits)

lemma py_dict_error: "py_dict its d = Inl e \<Longrightarrow> e = ValueError"
  by (induction its d rule: py_dict.induct) (auto split: list.splits)

lemma parse_new_error: "parse_new v = Inl e \<Longrightarrow> e = ValueError"
  by (auto simp: parse_new_def split: option.splits prod.splits sum.splits list.splits if_splits
      dest: py_dict_error)

lemma parse_items_error: "parse_items items m = Inl e \<Longrightarrow> e = ValueError"
  by (induction items m rule: parse_items.induct)
     (auto split: sum.splits dest: parse_numerical_id_error parse_new_error)











end
